theory Spec2Isabelle
  imports Main
begin

section \<open>Python values, dictionaries and the object store\<close>

text \<open>
  The notebook's first-party code is three functions: the two loader callbacks
  \<^verbatim>\<open>metadata_func\<close> and \<^verbatim>\<open>clean_metadata\<close>, and the context assembler
  \<^verbatim>\<open>_combine_documents\<close>. The callbacks receive two Python dictionaries by reference
  and write into the second one, so dictionaries live in a store and the callbacks
  pass the store along.

  A record is one element of a parsed JSON array, so its values are JSON values.
  JSON floats are left out: the callbacks only copy values and hand one of them to
  \<^verbatim>\<open>datetime.fromisoformat\<close>, which treats every non-string alike.
\<close>

datatype pyval =
    PyNone
  | PyBool bool
  | PyInt int
  | PyStr string
  | PyList "pyval list"
  | PyDict "(string \<times> pyval) list"

text \<open>The exceptions the modelled operations can raise; all are subclasses of
  Python's \<^verbatim>\<open>Exception\<close>, which is what both \<^verbatim>\<open>except\<close> clauses catch.\<close>

datatype exn = TypeError | ValueError | KeyError

type_synonym pydict = "string \<rightharpoonup> pyval"

type_synonym addr = nat

type_synonym heap = "addr \<Rightarrow> pydict"

text \<open>\<^verbatim>\<open>d.get(k, default)\<close>: never raises.\<close>

definition dict_get :: "pydict \<Rightarrow> string \<Rightarrow> pyval \<Rightarrow> pyval" where
  "dict_get d k dflt = (case d k of Some v \<Rightarrow> v | None \<Rightarrow> dflt)"

text \<open>\<^verbatim>\<open>k in d\<close>.\<close>

definition dict_contains :: "pydict \<Rightarrow> string \<Rightarrow> bool" where
  "dict_contains d k = (case d k of Some v \<Rightarrow> True | None \<Rightarrow> False)"

text \<open>\<^verbatim>\<open>d[k]\<close> as an expression: raises \<^verbatim>\<open>KeyError\<close> on a missing key.\<close>

definition dict_getitem :: "pydict \<Rightarrow> string \<Rightarrow> exn + pyval" where
  "dict_getitem d k = (case d k of Some v \<Rightarrow> Inr v | None \<Rightarrow> Inl KeyError)"

text \<open>\<^verbatim>\<open>d[k] = v\<close> on the dictionary object at address \<open>a\<close>: writes in place.\<close>

definition dict_setitem :: "addr \<Rightarrow> string \<Rightarrow> pyval \<Rightarrow> heap \<Rightarrow> heap" where
  "dict_setitem a k v h = h(a := (h a)(k \<mapsto> v))"

text \<open>
  \<^verbatim>\<open>d.pop(k)\<close> and \<^verbatim>\<open>d.pop(k, default)\<close> on the object at address \<open>a\<close>: removes the key
  and returns its value; on a missing key it returns the default when one is given
  (\<open>Some dflt\<close>) and raises \<^verbatim>\<open>KeyError\<close> otherwise. The dictionary is written in place.
\<close>

definition dict_pop :: "addr \<Rightarrow> string \<Rightarrow> pyval option \<Rightarrow> heap \<Rightarrow> (exn + pyval) \<times> heap" where
  "dict_pop a k dflt h =
     (case h a k of
        Some v \<Rightarrow> (Inr v, h(a := (h a)(k := None)))
      | None \<Rightarrow> (case dflt of Some d \<Rightarrow> (Inr d, h) | None \<Rightarrow> (Inl KeyError, h)))"

text \<open>
  \<^verbatim>\<open>datetime.fromisoformat(x)\<close>. The standard library's parser is not part of the
  repository: its behaviour on strings is the parameter \<open>parse\<close> (\<open>None\<close> where it raises
  \<^verbatim>\<open>ValueError\<close>), and \<open>'dt\<close> is the type of datetime objects. On an argument that is
  not a string it raises \<^verbatim>\<open>TypeError\<close>. The method \<^verbatim>\<open>.isoformat()\<close> is the second
  parameter \<open>fmt\<close> of the callbacks below.
\<close>

definition datetime_fromisoformat :: "(string \<Rightarrow> 'dt option) \<Rightarrow> pyval \<Rightarrow> exn + 'dt" where
  "datetime_fromisoformat parse x =
     (case x of
        PyStr s \<Rightarrow> (case parse s of Some dt \<Rightarrow> Inr dt | None \<Rightarrow> Inl ValueError)
      | _ \<Rightarrow> Inl TypeError)"

section \<open>The loader callbacks\<close>

text \<open>
  \<^verbatim>\<open>
  def metadata_func(record: dict, metadata: dict) -> dict:
      metadata["name"] = record.get("name", "")
      metadata["summary"] = record.get("summary", "")
      metadata["url"] = record.get("url", "")
      metadata["category"] = record.get("category", "")
      updated_raw = record.get("updated_at", "")
      try:
          metadata["updated_at"] = datetime.fromisoformat(updated_raw).isoformat()
      except Exception:
          metadata.pop("updated_at", None)
      return metadata
  \<close>
  \<open>record\<close> and \<open>metadata\<close> are the addresses of the two dictionaries; each statement
  reads the store as the previous statement left it, so the model is also right when
  both arguments are the same object. The result is the outcome (the returned
  reference, or an exception that escapes) and the store at that point.
\<close>

definition metadata_func ::
  "(string \<Rightarrow> 'dt option) \<Rightarrow> ('dt \<Rightarrow> string) \<Rightarrow> addr \<Rightarrow> addr \<Rightarrow> heap \<Rightarrow> (exn + addr) \<times> heap" where
  "metadata_func parse fmt record metadata h0 =
     (let h1 = dict_setitem metadata ''name'' (dict_get (h0 record) ''name'' (PyStr '''')) h0;
          h2 = dict_setitem metadata ''summary'' (dict_get (h1 record) ''summary'' (PyStr '''')) h1;
          h3 = dict_setitem metadata ''url'' (dict_get (h2 record) ''url'' (PyStr '''')) h2;
          h4 = dict_setitem metadata ''category'' (dict_get (h3 record) ''category'' (PyStr '''')) h3;
          updated_raw = dict_get (h4 record) ''updated_at'' (PyStr '''')
      in case datetime_fromisoformat parse updated_raw of
           Inr dt \<Rightarrow> (Inr metadata, dict_setitem metadata ''updated_at'' (PyStr (fmt dt)) h4)
         | Inl e \<Rightarrow>
             (case dict_pop metadata ''updated_at'' (Some PyNone) h4 of
                (Inl e', h5) \<Rightarrow> (Inl e', h5)
              | (Inr v, h5) \<Rightarrow> (Inr metadata, h5)))"

text \<open>
  \<^verbatim>\<open>
  def clean_metadata(record, metadata):
      if "updated_at" in record:
          try:
              metadata["updated_at"] = datetime.fromisoformat(record["updated_at"]).isoformat()
          except Exception:
              metadata["updated_at"] = None
      return metadata
  \<close>
\<close>

definition clean_metadata ::
  "(string \<Rightarrow> 'dt option) \<Rightarrow> ('dt \<Rightarrow> string) \<Rightarrow> addr \<Rightarrow> addr \<Rightarrow> heap \<Rightarrow> (exn + addr) \<times> heap" where
  "clean_metadata parse fmt record metadata h0 =
     (if dict_contains (h0 record) ''updated_at'' then
        (case (case dict_getitem (h0 record) ''updated_at'' of
                 Inl e \<Rightarrow> Inl e
               | Inr x \<Rightarrow> datetime_fromisoformat parse x) of
           Inr dt \<Rightarrow> (Inr metadata, dict_setitem metadata ''updated_at'' (PyStr (fmt dt)) h0)
         | Inl e \<Rightarrow> (Inr metadata, dict_setitem metadata ''updated_at'' PyNone h0))
      else (Inr metadata, h0))"

text \<open>The dictionary a call returns: the contents, in the final store, of the object
  whose reference is returned.\<close>

definition returned :: "(exn + addr) \<times> heap \<Rightarrow> exn + pydict" where
  "returned r = (case fst r of Inl e \<Rightarrow> Inl e | Inr a \<Rightarrow> Inr (snd r a))"

section \<open>The context assembler\<close>

text \<open>A retrieved passage: a langchain \<^verbatim>\<open>Document\<close>, with its text and its metadata.\<close>

record document =
  doc_page_content :: string
  doc_metadata :: pydict

text \<open>
  \<^verbatim>\<open>[format_document(doc, document_prompt) for doc in docs]\<close>: the documents are
  rendered from left to right and the first exception escapes. The library function
  \<^verbatim>\<open>format_document\<close> is the parameter \<open>fd\<close>.
\<close>

fun format_documents ::
  "(document \<Rightarrow> 'p \<Rightarrow> exn + string) \<Rightarrow> 'p \<Rightarrow> document list \<Rightarrow> exn + string list" where
  "format_documents fd p [] = Inr []"
| "format_documents fd p (d # ds) =
     (case fd d p of
        Inl e \<Rightarrow> Inl e
      | Inr s \<Rightarrow> (case format_documents fd p ds of Inl e \<Rightarrow> Inl e | Inr ss \<Rightarrow> Inr (s # ss)))"

text \<open>\<^verbatim>\<open>sep.join(strings)\<close> of Python.\<close>

fun str_join :: "string \<Rightarrow> string list \<Rightarrow> string" where
  "str_join sep [] = []"
| "str_join sep [s] = s"
| "str_join sep (s # t # ss) = s @ sep @ str_join sep (t # ss)"

text \<open>
  \<^verbatim>\<open>
  def _combine_documents(docs, document_prompt=LLM_DOCUMENT_PROMPT, document_separator="\n\n"):
      doc_strings = [format_document(doc, document_prompt) for doc in docs]
      return document_separator.join(doc_strings)
  \<close>
  (An Isabelle name cannot start with an underscore.)
\<close>

definition combine_documents ::
  "(document \<Rightarrow> 'p \<Rightarrow> exn + string) \<Rightarrow> document list \<Rightarrow> 'p \<Rightarrow> string \<Rightarrow> exn + string" where
  "combine_documents fd docs document_prompt document_separator =
     (case format_documents fd document_prompt docs of
        Inl e \<Rightarrow> Inl e
      | Inr doc_strings \<Rightarrow> Inr (str_join document_separator doc_strings))"

text \<open>The two default arguments of \<^verbatim>\<open>_combine_documents\<close>.\<close>

definition LLM_DOCUMENT_PROMPT :: string where
  "LLM_DOCUMENT_PROMPT = ''\<newline>---\<newline>SOURCE: {name}\<newline>{page_content}\<newline>---\<newline>''"

definition default_document_separator :: string where
  "default_document_separator = ''\<newline>\<newline>''"

text \<open>
  Modelled from the spec: the per-passage template rendering, which is langchain's
  \<^verbatim>\<open>format_document\<close> with a \<^verbatim>\<open>PromptTemplate\<close> and is imported by the notebook, not
  defined in it. The spec (sections 4.4 and 6) describes a template with placeholders
  for \<open>name\<close> and for the passage content, each passage being rendered through it; its
  example writes the placeholders \<open>{name}\<close> and \<open>{content}\<close>. A placeholder is replaced by
  the field it names: the passage content under \<open>content\<close> (and under \<open>page_content\<close>,
  the name the notebook's own template uses), a string entry of the metadata under its
  key. An unknown field or an unclosed placeholder is an error.
\<close>

function render_template :: "string \<Rightarrow> (string \<Rightarrow> string option) \<Rightarrow> exn + string" where
  "render_template [] env = Inr []"
| "render_template (c # cs) env =
     (if c = CHR ''{'' then
        (if CHR ''}'' \<in> set cs then
           (case env (takeWhile (\<lambda>x. x \<noteq> CHR ''}'') cs) of
              None \<Rightarrow> Inl KeyError
            | Some v \<Rightarrow>
                (case render_template (tl (dropWhile (\<lambda>x. x \<noteq> CHR ''}'') cs)) env of
                   Inl e \<Rightarrow> Inl e
                 | Inr r \<Rightarrow> Inr (v @ r)))
         else Inl ValueError)
      else (case render_template cs env of Inl e \<Rightarrow> Inl e | Inr r \<Rightarrow> Inr (c # r)))"
  by pat_completeness auto
termination
proof (relation "measure (\<lambda>(t, env). length t)")
  show "wf (measure (\<lambda>(t, env :: string \<Rightarrow> string option). length t))"
    by simp
next
  fix c :: char and cs :: string and env :: "string \<Rightarrow> string option"
  have "length (dropWhile (\<lambda>x. x \<noteq> CHR ''}'') cs) \<le> length cs"
    by (rule length_dropWhile_le)
  then show "((tl (dropWhile (\<lambda>x. x \<noteq> CHR ''}'') cs), env), c # cs, env)
               \<in> measure (\<lambda>(t, env). length t)"
    by simp
next
  fix c :: char and cs :: string and env :: "string \<Rightarrow> string option"
  show "((cs, env), c # cs, env) \<in> measure (\<lambda>(t, env). length t)"
    by simp
qed

text \<open>Modelled from the spec: the fields a template can name, the passage content and
  the string entries of the passage's metadata (\<open>name\<close> among them).\<close>

definition passage_field :: "document \<Rightarrow> string \<Rightarrow> string option" where
  "passage_field d k =
     (if k = ''content'' \<or> k = ''page_content'' then Some (doc_page_content d)
      else (case doc_metadata d k of Some (PyStr s) \<Rightarrow> Some s | _ \<Rightarrow> None))"

text \<open>Modelled from the spec: one passage rendered through the template.\<close>

definition format_document :: "document \<Rightarrow> string \<Rightarrow> exn + string" where
  "format_document d template = render_template template (passage_field d)"

section \<open>Timestamps: the standard's format and the library's parser\<close>

text \<open>Reading decimal digits.\<close>

definition digit_of :: "char \<Rightarrow> nat option" where
  "digit_of c = map_of (zip ''0123456789'' [0, 1, 2, 3, 4, 5, 6, 7, 8, 9]) c"

fun number_acc :: "nat \<Rightarrow> string \<Rightarrow> nat option" where
  "number_acc n [] = Some n"
| "number_acc n (c # cs) =
     (case digit_of c of None \<Rightarrow> None | Some d \<Rightarrow> number_acc (10 * n + d) cs)"

definition number :: "string \<Rightarrow> nat option" where
  "number s = (if s = [] then None else number_acc 0 s)"

text \<open>The fields of \<^verbatim>\<open>YYYY-MM-DD\<close> and of \<^verbatim>\<open>hh:mm:ss\<close>, before any range check.\<close>

definition date_fields :: "string \<Rightarrow> (nat \<times> nat \<times> nat) option" where
  "date_fields s =
     (if length s = 10 \<and> s ! 4 = CHR ''-'' \<and> s ! 7 = CHR ''-'' then
        (case (number (take 4 s), number (take 2 (drop 5 s)), number (drop 8 s)) of
           (Some y, Some m, Some d) \<Rightarrow> Some (y, m, d)
         | _ \<Rightarrow> None)
      else None)"

definition time_fields :: "string \<Rightarrow> (nat \<times> nat \<times> nat) option" where
  "time_fields s =
     (if length s = 8 \<and> s ! 2 = CHR '':'' \<and> s ! 5 = CHR '':'' then
        (case (number (take 2 s), number (take 2 (drop 3 s)), number (drop 6 s)) of
           (Some h, Some mi, Some se) \<Rightarrow> Some (h, mi, se)
         | _ \<Rightarrow> None)
      else None)"

definition leap_year :: "nat \<Rightarrow> bool" where
  "leap_year y = (if y mod 400 = 0 then True else if y mod 100 = 0 then False else y mod 4 = 0)"

definition days_in_month :: "nat \<Rightarrow> nat \<Rightarrow> nat" where
  "days_in_month y m =
     (if m = 2 then (if leap_year y then 29 else 28)
      else if m = 4 \<or> m = 6 \<or> m = 9 \<or> m = 11 then 30
      else 31)"

text \<open>A time of day with or without the UTC designator \<^verbatim>\<open>Z\<close>.\<close>

definition time_and_zone :: "string \<Rightarrow> ((nat \<times> nat \<times> nat) \<times> bool) option" where
  "time_and_zone s =
     (if s \<noteq> [] \<and> last s = CHR ''Z'' then map_option (\<lambda>t. (t, True)) (time_fields (butlast s))
      else map_option (\<lambda>t. (t, False)) (time_fields s))"

text \<open>
  Modelled from the spec: the spec's input condition, "a valid ISO-8601 timestamp
  string", which the notebook does not define. The recogniser covers the complete
  extended-format representations of the standard: a calendar date \<^verbatim>\<open>YYYY-MM-DD\<close>,
  alone or followed by \<^verbatim>\<open>T\<close>, a time of day \<^verbatim>\<open>hh:mm:ss\<close> and an optional \<^verbatim>\<open>Z\<close>. The
  second may be 60 at 23:59, the standard's representation of a positive leap second.
  Every string it accepts is a valid ISO-8601 timestamp; other valid representations
  (basic format, week and ordinal dates, reduced precision, fractions, offsets) are
  not covered.
\<close>

definition iso8601_date :: "string \<Rightarrow> bool" where
  "iso8601_date s =
     (case date_fields s of
        None \<Rightarrow> False
      | Some (y, m, d) \<Rightarrow> 1 \<le> m \<and> m \<le> 12 \<and> 1 \<le> d \<and> d \<le> days_in_month y m)"

definition iso8601_time :: "string \<Rightarrow> bool" where
  "iso8601_time s =
     (case time_and_zone s of
        None \<Rightarrow> False
      | Some ((h, mi, se), z) \<Rightarrow>
          h \<le> 23 \<and> mi \<le> 59 \<and> (se \<le> 59 \<or> (h = 23 \<and> mi = 59 \<and> se = 60)))"

definition iso8601_timestamp :: "string \<Rightarrow> bool" where
  "iso8601_timestamp s =
     (iso8601_date s \<or>
      (iso8601_date (take 10 s) \<and> take 1 (drop 10 s) = ''T'' \<and> iso8601_time (drop 11 s)))"

text \<open>
  The standard library's \<^verbatim>\<open>datetime.fromisoformat\<close> and \<^verbatim>\<open>datetime.isoformat\<close> of
  Python 3.11 (the notebook's kernel), on the same two shapes of input: a date
  \<^verbatim>\<open>YYYY-MM-DD\<close>, alone or followed by one separator character (any character), a time
  \<^verbatim>\<open>hh:mm:ss\<close> and an optional \<^verbatim>\<open>Z\<close>. The parser builds a \<^verbatim>\<open>datetime\<close>, whose
  constructor requires a year from 1, a month from 1 to 12, a day of that month, an
  hour below 24, a minute below 60 and a second below 60, and raises \<^verbatim>\<open>ValueError\<close>
  otherwise. Other shapes the library accepts are not modelled (the model rejects
  them); the examples below use it on strings of these two shapes and on strings the
  library rejects. Every general theorem about the callbacks holds for any parser
  and any formatter.
\<close>

record py_datetime =
  dt_year :: nat
  dt_month :: nat
  dt_day :: nat
  dt_hour :: nat
  dt_minute :: nat
  dt_second :: nat
  dt_utc :: bool

definition py_fromisoformat :: "string \<Rightarrow> py_datetime option" where
  "py_fromisoformat s =
     (case date_fields (take 10 s) of
        None \<Rightarrow> None
      | Some (y, m, d) \<Rightarrow>
          if 1 \<le> y \<and> 1 \<le> m \<and> m \<le> 12 \<and> 1 \<le> d \<and> d \<le> days_in_month y m then
            (if length s = 10 then
               Some \<lparr>dt_year = y, dt_month = m, dt_day = d,
                     dt_hour = 0, dt_minute = 0, dt_second = 0, dt_utc = False\<rparr>
             else
               (case time_and_zone (drop 11 s) of
                  None \<Rightarrow> None
                | Some ((h, mi, se), z) \<Rightarrow>
                    if h \<le> 23 \<and> mi \<le> 59 \<and> se \<le> 59 then
                      Some \<lparr>dt_year = y, dt_month = m, dt_day = d,
                            dt_hour = h, dt_minute = mi, dt_second = se, dt_utc = z\<rparr>
                    else None))
          else None)"

definition two_digits :: "nat \<Rightarrow> string" where
  "two_digits n = [''0123456789'' ! (n div 10 mod 10), ''0123456789'' ! (n mod 10)]"

definition py_isoformat :: "py_datetime \<Rightarrow> string" where
  "py_isoformat dt =
     two_digits (dt_year dt div 100) @ two_digits (dt_year dt mod 100) @ ''-'' @
     two_digits (dt_month dt) @ ''-'' @ two_digits (dt_day dt) @ ''T'' @
     two_digits (dt_hour dt) @ '':'' @ two_digits (dt_minute dt) @ '':'' @
     two_digits (dt_second dt) @ (if dt_utc dt then ''+00:00'' else '''')"

section \<open>Sample data\<close>

text \<open>
  Concrete inputs for the examples below. \<open>sample_fromisoformat\<close> and
  \<open>sample_isoformat\<close> are a smaller stand-in for the library, agreeing with it on the
  three strings their examples use: \<^verbatim>\<open>datetime.fromisoformat("2020-03-01").isoformat()\<close>
  is \<^verbatim>\<open>"2020-03-01T00:00:00"\<close> (the value the notebook prints for its first passage),
  and \<^verbatim>\<open>""\<close> and \<^verbatim>\<open>"not-a-date"\<close> are rejected. A datetime is a triple of year,
  month and day there.
\<close>

definition sample_fromisoformat :: "string \<Rightarrow> (nat \<times> nat \<times> nat) option" where
  "sample_fromisoformat s = (if s = ''2020-03-01'' then Some (2020, 3, 1) else None)"

definition sample_isoformat :: "nat \<times> nat \<times> nat \<Rightarrow> string" where
  "sample_isoformat dt = (if dt = (2020, 3, 1) then ''2020-03-01T00:00:00'' else '''')"

text \<open>A store with a record at address 0 and the loader's metadata at address 1.\<close>

definition two_dicts :: "pydict \<Rightarrow> pydict \<Rightarrow> heap" where
  "two_dicts r m = (\<lambda>a. if a = 0 then r else if a = 1 then m else Map.empty)"

definition loader_metadata :: pydict where
  "loader_metadata = [''source'' \<mapsto> PyStr ''temp.json'', ''seq_num'' \<mapsto> PyInt 1]"

definition policy_record :: pydict where
  "policy_record =
     [''name'' \<mapsto> PyStr ''Work From Home Policy'',
      ''content'' \<mapsto> PyStr ''Effective: March 2020'',
      ''updated_at'' \<mapsto> PyStr ''2020-03-01'']"

definition dirty_record :: pydict where
  "dirty_record = [''content'' \<mapsto> PyStr ''x'', ''updated_at'' \<mapsto> PyStr ''not-a-date'']"

definition bare_record :: pydict where
  "bare_record = [''content'' \<mapsto> PyStr ''x'']"

text \<open>Two records whose timestamp is a leap second (both dates had one).\<close>

definition leap_record_2015 :: pydict where
  "leap_record_2015 =
     [''content'' \<mapsto> PyStr ''x'', ''updated_at'' \<mapsto> PyStr ''2015-06-30T23:59:60Z'']"

definition leap_record_2016 :: pydict where
  "leap_record_2016 =
     [''content'' \<mapsto> PyStr ''x'', ''updated_at'' \<mapsto> PyStr ''2016-12-31T23:59:60Z'']"

definition passage_A :: document where
  "passage_A = \<lparr>doc_page_content = ''x'', doc_metadata = [''name'' \<mapsto> PyStr ''A'']\<rparr>"

definition passage_B :: document where
  "passage_B = \<lparr>doc_page_content = ''y'', doc_metadata = [''name'' \<mapsto> PyStr ''B'']\<rparr>"

section \<open>What the callbacks return and write\<close>

text \<open>Both callbacks return the reference they were given as \<open>metadata\<close>.\<close>

lemma metadata_func_fst: "fst (metadata_func parse fmt record metadata h) = Inr metadata"
  by (simp add: metadata_func_def Let_def dict_pop_def split: sum.split option.split)

lemma clean_metadata_fst: "fst (clean_metadata parse fmt record metadata h) = Inr metadata"
  by (simp add: clean_metadata_def split: sum.split)

text \<open>The contents of the metadata dictionary after a call, key by key. Both equations
  hold when \<open>record\<close> and \<open>metadata\<close> are the same object as well.\<close>

lemma metadata_func_lookup:
  "snd (metadata_func parse fmt record metadata h) metadata k =
     (if k = ''updated_at'' then
        (case datetime_fromisoformat parse (dict_get (h record) ''updated_at'' (PyStr '''')) of
           Inr dt \<Rightarrow> Some (PyStr (fmt dt))
         | Inl e \<Rightarrow> None)
      else if k = ''name'' \<or> k = ''summary'' \<or> k = ''url'' \<or> k = ''category'' then
        Some (dict_get (h record) k (PyStr ''''))
      else h metadata k)"
  by (simp add: metadata_func_def Let_def dict_pop_def dict_setitem_def dict_get_def
      split: sum.split option.split)

lemma clean_metadata_lookup:
  "snd (clean_metadata parse fmt record metadata h) metadata k =
     (if k = ''updated_at'' then
        (case h record ''updated_at'' of
           None \<Rightarrow> h metadata ''updated_at''
         | Some x \<Rightarrow>
             (case datetime_fromisoformat parse x of
                Inr dt \<Rightarrow> Some (PyStr (fmt dt))
              | Inl e \<Rightarrow> Some PyNone))
      else h metadata k)"
  by (simp add: clean_metadata_def dict_contains_def dict_getitem_def dict_setitem_def
      split: sum.split option.split)

text \<open>No other object of the store is written.\<close>

lemma metadata_func_frame:
  "a \<noteq> metadata \<Longrightarrow> snd (metadata_func parse fmt record metadata h) a = h a"
  by (simp add: metadata_func_def Let_def dict_pop_def dict_setitem_def
      split: sum.split option.split)

lemma clean_metadata_frame:
  "a \<noteq> metadata \<Longrightarrow> snd (clean_metadata parse fmt record metadata h) a = h a"
  by (simp add: clean_metadata_def dict_setitem_def split: sum.split)

text \<open>The new contents of the metadata dictionary are determined by the contents of the
  two arguments; the rest of the store is not read.\<close>

lemma metadata_func_depends_on_arguments:
  assumes "h' record = h record" and "h' metadata = h metadata"
  shows "snd (metadata_func parse fmt record metadata h') metadata =
         snd (metadata_func parse fmt record metadata h) metadata"
proof
  fix k
  show "snd (metadata_func parse fmt record metadata h') metadata k =
        snd (metadata_func parse fmt record metadata h) metadata k"
    unfolding metadata_func_lookup by (simp only: assms)
qed

lemma clean_metadata_depends_on_arguments:
  assumes "h' record = h record" and "h' metadata = h metadata"
  shows "snd (clean_metadata parse fmt record metadata h') metadata =
         snd (clean_metadata parse fmt record metadata h) metadata"
proof
  fix k
  show "snd (clean_metadata parse fmt record metadata h') metadata k =
        snd (clean_metadata parse fmt record metadata h) metadata k"
    unfolding clean_metadata_lookup by (simp only: assms)
qed

text \<open>
  The loader hands the callback a metadata dictionary that already holds \<open>source\<close> and
  \<open>seq_num\<close> (the notebook prints them in front of the keys \<^verbatim>\<open>metadata_func\<close> adds).
  The callback passes both on as it received them; how the loader numbers records and
  what the splitter does with the number is library code outside the notebook.
\<close>

lemma metadata_func_keeps_loader_keys:
  "snd (metadata_func parse fmt record metadata h) metadata ''seq_num'' = h metadata ''seq_num'' \<and>
   snd (metadata_func parse fmt record metadata h) metadata ''source'' = h metadata ''source''"
  by (simp add: metadata_func_lookup)

section \<open>Totality of the callbacks\<close>

text \<open>A removal with a default returns; one without a default raises on a missing key.\<close>

lemma dict_pop_default_returns: "\<exists>v h'. dict_pop a k (Some d) h = (Inr v, h')"
  by (simp add: dict_pop_def split: option.split)

lemma dict_pop_no_default_raises: "h a k = None \<Longrightarrow> dict_pop a k None h = (Inl KeyError, h)"
  by (simp add: dict_pop_def)

text \<open>
  Claim C10. \<^verbatim>\<open>metadata_func\<close> returns normally on every record, every metadata
  dictionary and every behaviour of the timestamp parser: an exception raised while
  parsing is caught, and the removal that follows has a default, so it does not raise
  when the key is absent. The reference returned is the metadata argument.
\<close>

theorem metadata_func_total:
  "\<exists>h'. metadata_func parse fmt record metadata h = (Inr metadata, h')"
  by (simp add: metadata_func_def Let_def dict_pop_def split: sum.split option.split)

section \<open>The timestamp entry\<close>

text \<open>The library model on the strings used below.\<close>

lemma py_fromisoformat_date:
  "py_fromisoformat ''2020-03-01'' =
     Some \<lparr>dt_year = 2020, dt_month = 3, dt_day = 1,
           dt_hour = 0, dt_minute = 0, dt_second = 0, dt_utc = False\<rparr>"
  by (simp add: py_fromisoformat_def date_fields_def number_def digit_of_def
      days_in_month_def)

lemma py_fromisoformat_rejects:
  "py_fromisoformat '''' = None \<and> py_fromisoformat ''not-a-date'' = None"
  by (simp add: py_fromisoformat_def date_fields_def)

lemma py_fromisoformat_leap_second:
  "py_fromisoformat ''2015-06-30T23:59:60Z'' = None \<and>
   py_fromisoformat ''2016-12-31T23:59:60Z'' = None"
  by (simp add: py_fromisoformat_def date_fields_def time_and_zone_def time_fields_def
      number_def digit_of_def days_in_month_def)

lemma iso8601_leap_second:
  "iso8601_timestamp ''2015-06-30T23:59:60Z'' \<and> iso8601_timestamp ''2016-12-31T23:59:60Z''"
  by (simp add: iso8601_timestamp_def iso8601_date_def iso8601_time_def date_fields_def
      time_and_zone_def time_fields_def number_def digit_of_def days_in_month_def)

text \<open>
  Claim C1, as amended. For every record and every metadata dictionary, the mapping
  \<^verbatim>\<open>metadata_func\<close> returns has the key \<open>updated_at\<close> exactly when the record's raw value
  (the empty string when the key is missing) is accepted by the library's timestamp
  parser, and its value is then that very timestamp, parsed from the record's value
  and formatted again. On every failure, a string the parser rejects or a value that
  is not a string, the key is absent, also when the metadata held one before; a record
  without the key gives no entry as soon as the parser rejects the empty string. The
  entry is never \<^verbatim>\<open>None\<close>.
\<close>

theorem metadata_func_updated_at_iff_parses:
  "\<exists>m. returned (metadata_func parse fmt record metadata h) = Inr m \<and>
       ((m ''updated_at'' \<noteq> None) =
          (\<exists>dt. datetime_fromisoformat parse
                  (dict_get (h record) ''updated_at'' (PyStr '''')) = Inr dt)) \<and>
       (\<forall>dt. datetime_fromisoformat parse
                (dict_get (h record) ''updated_at'' (PyStr '''')) = Inr dt \<longrightarrow>
             m ''updated_at'' = Some (PyStr (fmt dt))) \<and>
       (\<forall>e. datetime_fromisoformat parse
               (dict_get (h record) ''updated_at'' (PyStr '''')) = Inl e \<longrightarrow>
            m ''updated_at'' = None) \<and>
       (h record ''updated_at'' = None \<and> parse '''' = None \<longrightarrow> m ''updated_at'' = None) \<and>
       m ''updated_at'' \<noteq> Some PyNone \<and>
       (\<forall>v. m ''updated_at'' = Some v \<longrightarrow>
            (\<exists>dt. datetime_fromisoformat parse
                    (dict_get (h record) ''updated_at'' (PyStr '''')) = Inr dt \<and>
                  v = PyStr (fmt dt)))"
proof -
  let ?res = "metadata_func parse fmt record metadata h"
  let ?m = "snd ?res metadata"
  let ?p = "datetime_fromisoformat parse (dict_get (h record) ''updated_at'' (PyStr ''''))"
  have ret: "returned ?res = Inr ?m"
    by (simp add: returned_def metadata_func_fst)
  have upd: "?m ''updated_at'' = (case ?p of Inr dt \<Rightarrow> Some (PyStr (fmt dt)) | Inl e \<Rightarrow> None)"
    by (simp add: metadata_func_lookup)
  have iff: "(?m ''updated_at'' \<noteq> None) = (\<exists>dt. ?p = Inr dt)"
    unfolding upd by (cases ?p) simp_all
  have ok: "\<forall>dt. ?p = Inr dt \<longrightarrow> ?m ''updated_at'' = Some (PyStr (fmt dt))"
    unfolding upd by simp
  have fail: "\<forall>e. ?p = Inl e \<longrightarrow> ?m ''updated_at'' = None"
    unfolding upd by simp
  have missing: "h record ''updated_at'' = None \<and> parse '''' = None \<longrightarrow> ?m ''updated_at'' = None"
    unfolding upd by (simp add: dict_get_def datetime_fromisoformat_def)
  have nonull: "?m ''updated_at'' \<noteq> Some PyNone"
    unfolding upd by (cases ?p) simp_all
  have str: "\<forall>v. ?m ''updated_at'' = Some v \<longrightarrow> (\<exists>dt. ?p = Inr dt \<and> v = PyStr (fmt dt))"
    unfolding upd by (cases ?p) auto
  from ret iff ok fail missing nonull str show ?thesis
    by blast
qed

text \<open>The theorem with the library model, at three records: a timestamp that parses,
  one that does not, and a record without the key.\<close>

theorem metadata_func_updated_at_iff_parses_witness:
  "datetime_fromisoformat py_fromisoformat
     (dict_get (two_dicts policy_record loader_metadata 0) ''updated_at'' (PyStr '''')) =
     Inr \<lparr>dt_year = 2020, dt_month = 3, dt_day = 1,
          dt_hour = 0, dt_minute = 0, dt_second = 0, dt_utc = False\<rparr> \<and>
   returned (metadata_func py_fromisoformat py_isoformat 0 1
               (two_dicts policy_record loader_metadata)) =
     Inr (snd (metadata_func py_fromisoformat py_isoformat 0 1
               (two_dicts policy_record loader_metadata)) 1) \<and>
   snd (metadata_func py_fromisoformat py_isoformat 0 1
          (two_dicts policy_record loader_metadata)) 1 ''updated_at'' =
     Some (PyStr ''2020-03-01T00:00:00'') \<and>
   datetime_fromisoformat py_fromisoformat
     (dict_get (two_dicts dirty_record loader_metadata 0) ''updated_at'' (PyStr '''')) =
     Inl ValueError \<and>
   snd (metadata_func py_fromisoformat py_isoformat 0 1
          (two_dicts dirty_record loader_metadata)) 1 ''updated_at'' = None \<and>
   two_dicts bare_record loader_metadata 0 ''updated_at'' = None \<and>
   py_fromisoformat '''' = None \<and>
   snd (metadata_func py_fromisoformat py_isoformat 0 1
          (two_dicts bare_record loader_metadata)) 1 ''updated_at'' = None"
proof -
  let ?ok = "two_dicts policy_record loader_metadata"
  let ?bad = "two_dicts dirty_record loader_metadata"
  let ?bare = "two_dicts bare_record loader_metadata"
  let ?f = "metadata_func py_fromisoformat py_isoformat 0 1"
  let ?dt = "\<lparr>dt_year = 2020, dt_month = 3, dt_day = 1,
              dt_hour = 0, dt_minute = 0, dt_second = 0, dt_utc = False\<rparr>"
  have p1: "datetime_fromisoformat py_fromisoformat
              (dict_get (?ok 0) ''updated_at'' (PyStr '''')) = Inr ?dt"
    by (simp add: datetime_fromisoformat_def dict_get_def two_dicts_def policy_record_def
        py_fromisoformat_date)
  have p2: "datetime_fromisoformat py_fromisoformat
              (dict_get (?bad 0) ''updated_at'' (PyStr '''')) = Inl ValueError"
    by (simp add: datetime_fromisoformat_def dict_get_def two_dicts_def dirty_record_def
        py_fromisoformat_rejects)
  have p3: "?bare 0 ''updated_at'' = None"
    by (simp add: two_dicts_def bare_record_def)
  have p4: "py_fromisoformat '''' = None"
    by (simp add: py_fromisoformat_rejects)
  have ret: "returned (?f h) = Inr (snd (?f h) 1)" for h
    by (simp add: returned_def metadata_func_fst)
  obtain m1 where m1: "returned (?f ?ok) = Inr m1"
    and ok: "\<forall>dt. datetime_fromisoformat py_fromisoformat
                     (dict_get (?ok 0) ''updated_at'' (PyStr '''')) = Inr dt \<longrightarrow>
                  m1 ''updated_at'' = Some (PyStr (py_isoformat dt))"
    using metadata_func_updated_at_iff_parses [of py_fromisoformat py_isoformat 0 1 ?ok]
    by blast
  from m1 ret [of ?ok] have e1: "m1 = snd (?f ?ok) 1"
    by simp
  from ok p1 have "m1 ''updated_at'' = Some (PyStr (py_isoformat ?dt))"
    by blast
  then have a1: "snd (?f ?ok) 1 ''updated_at'' = Some (PyStr ''2020-03-01T00:00:00'')"
    unfolding e1 by (simp add: py_isoformat_def two_digits_def)
  obtain m2 where m2: "returned (?f ?bad) = Inr m2"
    and fail: "\<forall>e. datetime_fromisoformat py_fromisoformat
                     (dict_get (?bad 0) ''updated_at'' (PyStr '''')) = Inl e \<longrightarrow>
                  m2 ''updated_at'' = None"
    using metadata_func_updated_at_iff_parses [of py_fromisoformat py_isoformat 0 1 ?bad]
    by blast
  from m2 ret [of ?bad] have e2: "m2 = snd (?f ?bad) 1"
    by simp
  from fail p2 have "m2 ''updated_at'' = None"
    by blast
  then have a2: "snd (?f ?bad) 1 ''updated_at'' = None"
    unfolding e2 .
  obtain m3 where m3: "returned (?f ?bare) = Inr m3"
    and missing: "?bare 0 ''updated_at'' = None \<and> py_fromisoformat '''' = None \<longrightarrow>
                  m3 ''updated_at'' = None"
    using metadata_func_updated_at_iff_parses [of py_fromisoformat py_isoformat 0 1 ?bare]
    by blast
  from m3 ret [of ?bare] have e3: "m3 = snd (?f ?bare) 1"
    by simp
  from missing p3 p4 have "m3 ''updated_at'' = None"
    by blast
  then have a3: "snd (?f ?bare) 1 ''updated_at'' = None"
    unfolding e3 .
  from p1 ret [of ?ok] a1 p2 a2 p3 p4 a3 show ?thesis
    by (intro conjI)
qed

text \<open>
  The claim as written fails in two ways. It covers the second callback, and on the
  record \<^verbatim>\<open>{"content": "x", "updated_at": "not-a-date"}\<close> the parse fails and
  \<^verbatim>\<open>clean_metadata\<close> stores \<^verbatim>\<open>None\<close> under \<open>updated_at\<close>. And it takes the key to be
  present for every valid ISO-8601 timestamp: \<^verbatim>\<open>"2015-06-30T23:59:60Z"\<close>, a leap
  second, is valid, the library's parser rejects it (a second must be below 60), and
  the mapping \<^verbatim>\<open>metadata_func\<close> returns has no \<open>updated_at\<close>.
\<close>

theorem updated_at_claim_fails:
  "datetime_fromisoformat py_fromisoformat
     (dict_get (two_dicts dirty_record loader_metadata 0) ''updated_at'' (PyStr '''')) =
     Inl ValueError \<and>
   fst (clean_metadata py_fromisoformat py_isoformat 0 1
          (two_dicts dirty_record loader_metadata)) = Inr 1 \<and>
   snd (clean_metadata py_fromisoformat py_isoformat 0 1
          (two_dicts dirty_record loader_metadata)) 1 ''updated_at'' = Some PyNone \<and>
   two_dicts leap_record_2015 loader_metadata 0 ''updated_at'' =
     Some (PyStr ''2015-06-30T23:59:60Z'') \<and>
   iso8601_timestamp ''2015-06-30T23:59:60Z'' \<and>
   fst (metadata_func py_fromisoformat py_isoformat 0 1
          (two_dicts leap_record_2015 loader_metadata)) = Inr 1 \<and>
   snd (metadata_func py_fromisoformat py_isoformat 0 1
          (two_dicts leap_record_2015 loader_metadata)) 1 ''updated_at'' = None"
  by (simp add: clean_metadata_fst clean_metadata_lookup metadata_func_fst
      metadata_func_lookup dict_get_def datetime_fromisoformat_def two_dicts_def
      dirty_record_def leap_record_2015_def py_fromisoformat_rejects
      py_fromisoformat_leap_second iso8601_leap_second)

text \<open>
  Claim C5, as amended. When the record's \<open>updated_at\<close> is a string, the entry
  \<^verbatim>\<open>metadata_func\<close> stores is decided by the library's parser: if the parser accepts
  the string, the entry is that timestamp parsed and formatted again; if the parser
  rejects it, there is no entry.
\<close>

theorem metadata_func_canonical_updated_at:
  assumes "h record ''updated_at'' = Some (PyStr s)"
  shows "\<exists>m. returned (metadata_func parse fmt record metadata h) = Inr m \<and>
             (\<forall>dt. parse s = Some dt \<longrightarrow> m ''updated_at'' = Some (PyStr (fmt dt))) \<and>
             (parse s = None \<longrightarrow> m ''updated_at'' = None)"
proof -
  let ?m = "snd (metadata_func parse fmt record metadata h) metadata"
  from assms have raw: "dict_get (h record) ''updated_at'' (PyStr '''') = PyStr s"
    by (simp add: dict_get_def)
  have upd: "?m ''updated_at'' =
               (case parse s of Some dt \<Rightarrow> Some (PyStr (fmt dt)) | None \<Rightarrow> None)"
    by (simp add: metadata_func_lookup raw datetime_fromisoformat_def split: option.split)
  have ret: "returned (metadata_func parse fmt record metadata h) = Inr ?m"
    by (simp add: returned_def metadata_func_fst)
  from ret upd show ?thesis
    by (intro exI [of _ ?m]) simp
qed

text \<open>The record \<^verbatim>\<open>{"updated_at": "2020-03-01", ...}\<close> gives \<^verbatim>\<open>"2020-03-01T00:00:00"\<close>,
  the value the notebook prints for its first passage; the record with
  \<^verbatim>\<open>"not-a-date"\<close> gives no entry.\<close>

theorem metadata_func_canonical_updated_at_witness:
  "two_dicts policy_record loader_metadata 0 ''updated_at'' = Some (PyStr ''2020-03-01'') \<and>
   iso8601_timestamp ''2020-03-01'' \<and>
   map_option py_isoformat (py_fromisoformat ''2020-03-01'') = Some ''2020-03-01T00:00:00'' \<and>
   (\<exists>m. returned (metadata_func py_fromisoformat py_isoformat 0 1
                     (two_dicts policy_record loader_metadata)) = Inr m \<and>
        m ''updated_at'' = Some (PyStr ''2020-03-01T00:00:00'')) \<and>
   two_dicts dirty_record loader_metadata 0 ''updated_at'' = Some (PyStr ''not-a-date'') \<and>
   py_fromisoformat ''not-a-date'' = None \<and>
   (\<exists>m. returned (metadata_func py_fromisoformat py_isoformat 0 1
                     (two_dicts dirty_record loader_metadata)) = Inr m \<and>
        m ''updated_at'' = None)"
proof -
  let ?ok = "two_dicts policy_record loader_metadata"
  let ?bad = "two_dicts dirty_record loader_metadata"
  let ?f = "metadata_func py_fromisoformat py_isoformat 0 1"
  let ?dt = "\<lparr>dt_year = 2020, dt_month = 3, dt_day = 1,
              dt_hour = 0, dt_minute = 0, dt_second = 0, dt_utc = False\<rparr>"
  have r1: "?ok 0 ''updated_at'' = Some (PyStr ''2020-03-01'')"
    by (simp add: two_dicts_def policy_record_def)
  have r2: "?bad 0 ''updated_at'' = Some (PyStr ''not-a-date'')"
    by (simp add: two_dicts_def dirty_record_def)
  have v: "iso8601_timestamp ''2020-03-01''"
    by (simp add: iso8601_timestamp_def iso8601_date_def date_fields_def number_def
        digit_of_def days_in_month_def)
  have fmt: "py_isoformat ?dt = ''2020-03-01T00:00:00''"
    by (simp add: py_isoformat_def two_digits_def)
  have p: "map_option py_isoformat (py_fromisoformat ''2020-03-01'') =
             Some ''2020-03-01T00:00:00''"
    unfolding py_fromisoformat_date option.map fmt ..
  have q: "py_fromisoformat ''not-a-date'' = None"
    by (simp add: py_fromisoformat_rejects)
  obtain m1 where m1: "returned (?f ?ok) = Inr m1"
    and ok: "\<forall>dt. py_fromisoformat ''2020-03-01'' = Some dt \<longrightarrow>
                  m1 ''updated_at'' = Some (PyStr (py_isoformat dt))"
    using metadata_func_canonical_updated_at
            [of ?ok 0 "''2020-03-01''" py_fromisoformat py_isoformat 1, OF r1]
    by blast
  from ok py_fromisoformat_date have "m1 ''updated_at'' = Some (PyStr (py_isoformat ?dt))"
    by blast
  then have a1: "m1 ''updated_at'' = Some (PyStr ''2020-03-01T00:00:00'')"
    unfolding fmt .
  obtain m2 where m2: "returned (?f ?bad) = Inr m2"
    and rej: "py_fromisoformat ''not-a-date'' = None \<longrightarrow> m2 ''updated_at'' = None"
    using metadata_func_canonical_updated_at
            [of ?bad 0 "''not-a-date''" py_fromisoformat py_isoformat 1, OF r2]
    by (elim exE conjE) (rule that, assumption+)
  from rej q have a2: "m2 ''updated_at'' = None"
    by blast
  from m1 a1 have x1: "\<exists>m. returned (?f ?ok) = Inr m \<and>
                          m ''updated_at'' = Some (PyStr ''2020-03-01T00:00:00'')"
    by blast
  from m2 a2 have x2: "\<exists>m. returned (?f ?bad) = Inr m \<and> m ''updated_at'' = None"
    by blast
  from r1 v p x1 r2 q x2 show ?thesis
    by (intro conjI)
qed

text \<open>
  The claim as written promises the entry for every valid ISO-8601 timestamp. The
  leap second \<^verbatim>\<open>"2016-12-31T23:59:60Z"\<close> is one; the library's parser rejects it, and
  the mapping \<^verbatim>\<open>metadata_func\<close> returns for the record has no \<open>updated_at\<close>.
\<close>

theorem valid_leap_second_gets_no_updated_at:
  "two_dicts leap_record_2016 loader_metadata 0 ''updated_at'' =
     Some (PyStr ''2016-12-31T23:59:60Z'') \<and>
   iso8601_timestamp ''2016-12-31T23:59:60Z'' \<and>
   py_fromisoformat ''2016-12-31T23:59:60Z'' = None \<and>
   fst (metadata_func py_fromisoformat py_isoformat 0 1
          (two_dicts leap_record_2016 loader_metadata)) = Inr 1 \<and>
   snd (metadata_func py_fromisoformat py_isoformat 0 1
          (two_dicts leap_record_2016 loader_metadata)) 1 ''updated_at'' = None"
  by (simp add: metadata_func_fst metadata_func_lookup dict_get_def
      datetime_fromisoformat_def two_dicts_def leap_record_2016_def
      py_fromisoformat_leap_second iso8601_leap_second)

section \<open>The four descriptive fields\<close>

text \<open>
  Claim C4, as amended. For every record and every metadata dictionary, the mapping
  \<^verbatim>\<open>metadata_func\<close> returns has the four keys \<open>name\<close>, \<open>summary\<close>, \<open>url\<close> and
  \<open>category\<close>, each with the record's value for it, and with the empty string for each
  of them that the record lacks.
\<close>

theorem metadata_func_defaults:
  "\<exists>m. returned (metadata_func parse fmt record metadata h) = Inr m \<and>
       (\<forall>k \<in> {''name'', ''summary'', ''url'', ''category''}.
          m k = Some (dict_get (h record) k (PyStr '''')) \<and>
          (h record k = None \<longrightarrow> m k = Some (PyStr '''')))"
proof -
  let ?res = "metadata_func parse fmt record metadata h"
  let ?m = "snd ?res metadata"
  have ret: "returned ?res = Inr ?m"
    by (simp add: returned_def metadata_func_fst)
  have keys: "\<forall>k \<in> {''name'', ''summary'', ''url'', ''category''}.
                ?m k = Some (dict_get (h record) k (PyStr ''''))"
    by (simp add: metadata_func_lookup)
  have dflt: "\<And>k. h record k = None \<Longrightarrow> dict_get (h record) k (PyStr '''') = PyStr ''''"
    by (simp add: dict_get_def)
  from ret keys dflt show ?thesis
    by (intro exI [of _ ?m]) simp
qed

text \<open>
  The record with a name and no summary, url or category: the name is copied, the
  other three are empty strings.
\<close>

theorem metadata_func_defaults_witness:
  "two_dicts policy_record loader_metadata 0 ''summary'' = None \<and>
   two_dicts policy_record loader_metadata 0 ''url'' = None \<and>
   two_dicts policy_record loader_metadata 0 ''category'' = None \<and>
   snd (metadata_func sample_fromisoformat sample_isoformat 0 1
          (two_dicts policy_record loader_metadata)) 1 ''name'' = Some (PyStr ''Work From Home Policy'') \<and>
   snd (metadata_func sample_fromisoformat sample_isoformat 0 1
          (two_dicts policy_record loader_metadata)) 1 ''summary'' = Some (PyStr '''') \<and>
   snd (metadata_func sample_fromisoformat sample_isoformat 0 1
          (two_dicts policy_record loader_metadata)) 1 ''url'' = Some (PyStr '''') \<and>
   snd (metadata_func sample_fromisoformat sample_isoformat 0 1
          (two_dicts policy_record loader_metadata)) 1 ''category'' = Some (PyStr '''')"
  using metadata_func_defaults
          [of sample_fromisoformat sample_isoformat 0 1 "two_dicts policy_record loader_metadata"]
  by (simp add: returned_def metadata_func_fst dict_get_def sample_fromisoformat_def
      sample_isoformat_def two_dicts_def loader_metadata_def policy_record_def)

text \<open>
  The claim as written covers the second callback too, and fails there: the record
  \<^verbatim>\<open>{"content": "x", "updated_at": "not-a-date"}\<close> has no \<open>name\<close>, and the mapping
  \<^verbatim>\<open>clean_metadata\<close> returns has no \<open>name\<close> key either.
\<close>

theorem clean_metadata_adds_no_defaults:
  "two_dicts dirty_record loader_metadata 0 ''name'' = None \<and>
   fst (clean_metadata sample_fromisoformat sample_isoformat 0 1
          (two_dicts dirty_record loader_metadata)) = Inr 1 \<and>
   snd (clean_metadata sample_fromisoformat sample_isoformat 0 1
          (two_dicts dirty_record loader_metadata)) 1 ''name'' = None"
  by (simp add: clean_metadata_fst clean_metadata_lookup sample_fromisoformat_def
      sample_isoformat_def two_dicts_def loader_metadata_def dirty_record_def)

text \<open>
  Claim C9. \<^verbatim>\<open>clean_metadata\<close> changes at most the \<open>updated_at\<close> entry of the
  metadata dictionary: every other key has in the result what it had on entry (an
  absent key stays absent), in particular \<open>name\<close>, \<open>summary\<close>, \<open>url\<close> and \<open>category\<close>
  are neither added nor given defaults; and no other object is written.
\<close>

theorem clean_metadata_touches_only_updated_at:
  "\<exists>m. returned (clean_metadata parse fmt record metadata h) = Inr m \<and>
       (\<forall>k. k \<noteq> ''updated_at'' \<longrightarrow> m k = h metadata k) \<and>
       m ''name'' = h metadata ''name'' \<and> m ''summary'' = h metadata ''summary'' \<and>
       m ''url'' = h metadata ''url'' \<and> m ''category'' = h metadata ''category'' \<and>
       (\<forall>a. a \<noteq> metadata \<longrightarrow> snd (clean_metadata parse fmt record metadata h) a = h a)"
  by (intro exI [of _ "snd (clean_metadata parse fmt record metadata h) metadata"])
     (simp add: returned_def clean_metadata_fst clean_metadata_lookup clean_metadata_frame)

text \<open>
  On the loader's metadata \<^verbatim>\<open>{"source": ..., "seq_num": 1}\<close> the result is that
  dictionary with the timestamp added; \<open>seq_num\<close> is kept, \<open>name\<close> is still absent,
  and the record is as it was.
\<close>

theorem clean_metadata_touches_only_updated_at_witness:
  "returned (clean_metadata sample_fromisoformat sample_isoformat 0 1
               (two_dicts policy_record loader_metadata)) =
     Inr (loader_metadata(''updated_at'' \<mapsto> PyStr ''2020-03-01T00:00:00'')) \<and>
   ''seq_num'' \<noteq> ''updated_at'' \<and>
   snd (clean_metadata sample_fromisoformat sample_isoformat 0 1
          (two_dicts policy_record loader_metadata)) 1 ''seq_num'' = Some (PyInt 1) \<and>
   snd (clean_metadata sample_fromisoformat sample_isoformat 0 1
          (two_dicts policy_record loader_metadata)) 1 ''name'' = None \<and>
   (0::nat) \<noteq> 1 \<and>
   snd (clean_metadata sample_fromisoformat sample_isoformat 0 1
          (two_dicts policy_record loader_metadata)) 0 = policy_record"
  using clean_metadata_touches_only_updated_at
          [of sample_fromisoformat sample_isoformat 0 1 "two_dicts policy_record loader_metadata"]
  by (auto simp add: returned_def clean_metadata_fst clean_metadata_lookup clean_metadata_frame
      datetime_fromisoformat_def sample_fromisoformat_def sample_isoformat_def
      two_dicts_def loader_metadata_def policy_record_def)

section \<open>Effects on the arguments\<close>

text \<open>
  Claim C3, as amended. Each callback reads only its two arguments and writes only
  the metadata dictionary: it updates that dictionary in place and returns the same
  object; every other object of the store, the record included when it is a different
  object, is left as it was; and the new contents of the metadata dictionary depend
  only on the contents of the two arguments.
\<close>

theorem callbacks_write_only_metadata:
  assumes "f = metadata_func parse fmt \<or> f = clean_metadata parse fmt"
  shows "fst (f record metadata h) = Inr metadata \<and>
         (\<forall>a. a \<noteq> metadata \<longrightarrow> snd (f record metadata h) a = h a) \<and>
         (record \<noteq> metadata \<longrightarrow> snd (f record metadata h) record = h record) \<and>
         (\<forall>h'. h' record = h record \<and> h' metadata = h metadata \<longrightarrow>
               snd (f record metadata h') metadata = snd (f record metadata h) metadata)"
proof -
  have ret: "fst (f record metadata h) = Inr metadata"
    using assms by (auto simp add: metadata_func_fst clean_metadata_fst)
  have frame: "snd (f record metadata h) a = h a" if "a \<noteq> metadata" for a
    using assms that by (auto simp add: metadata_func_frame clean_metadata_frame)
  have dep: "snd (f record metadata h') metadata = snd (f record metadata h) metadata"
    if "h' record = h record" and "h' metadata = h metadata" for h'
    using assms
  proof
    assume F: "f = metadata_func parse fmt"
    show ?thesis
      unfolding F using that by (rule metadata_func_depends_on_arguments)
  next
    assume F: "f = clean_metadata parse fmt"
    show ?thesis
      unfolding F using that by (rule clean_metadata_depends_on_arguments)
  qed
  from ret frame dep show ?thesis
    by blast
qed

text \<open>
  \<^verbatim>\<open>metadata_func\<close> on a record at address 0 and a metadata dictionary at address 1:
  the record and the unused address 2 are unchanged, and putting another dictionary at
  address 2 beforehand does not change the outcome.
\<close>

theorem callbacks_write_only_metadata_witness:
  "fst (metadata_func sample_fromisoformat sample_isoformat 0 1
          (two_dicts policy_record loader_metadata)) = Inr 1 \<and>
   (0::nat) \<noteq> 1 \<and>
   snd (metadata_func sample_fromisoformat sample_isoformat 0 1
          (two_dicts policy_record loader_metadata)) 0 = policy_record \<and>
   snd (metadata_func sample_fromisoformat sample_isoformat 0 1
          (two_dicts policy_record loader_metadata)) 2 = Map.empty \<and>
   ((two_dicts policy_record loader_metadata)(2 := dirty_record)) 0 = policy_record \<and>
   ((two_dicts policy_record loader_metadata)(2 := dirty_record)) 1 = loader_metadata \<and>
   snd (metadata_func sample_fromisoformat sample_isoformat 0 1
          ((two_dicts policy_record loader_metadata)(2 := dirty_record))) 1 =
   snd (metadata_func sample_fromisoformat sample_isoformat 0 1
          (two_dicts policy_record loader_metadata)) 1"
proof -
  let ?h = "two_dicts policy_record loader_metadata"
  let ?h' = "(two_dicts policy_record loader_metadata)(2 := dirty_record)"
  let ?f = "metadata_func sample_fromisoformat sample_isoformat"
  have h0: "?h 0 = policy_record" and h1: "?h 1 = loader_metadata" and h2: "?h 2 = Map.empty"
    by (simp_all add: two_dicts_def)
  have f: "?f = metadata_func sample_fromisoformat sample_isoformat \<or>
           ?f = clean_metadata sample_fromisoformat sample_isoformat"
    by simp
  note T = callbacks_write_only_metadata [OF f, of 0 1 ?h]
  have a: "fst (?f 0 1 ?h) = Inr 1"
    using T by (rule conjunct1)
  have b: "snd (?f 0 1 ?h) 0 = policy_record"
    using T [THEN conjunct2, THEN conjunct2, THEN conjunct1] h0 by simp
  have c: "snd (?f 0 1 ?h) 2 = Map.empty"
    using T [THEN conjunct2, THEN conjunct1, THEN spec, of 2] h2 by simp
  have d: "snd (?f 0 1 ?h') 1 = snd (?f 0 1 ?h) 1"
    using T [THEN conjunct2, THEN conjunct2, THEN conjunct2, THEN spec, of ?h'] by simp
  from a b c d h0 h1 show ?thesis
    by simp
qed

text \<open>
  The claim as written says the caller's mappings are left unmodified. The metadata
  mapping is not: the caller's dictionary at address 1 has no \<open>name\<close> before the call
  and has one after it.
\<close>

theorem metadata_func_writes_metadata:
  "two_dicts policy_record loader_metadata 1 ''name'' = None \<and>
   fst (metadata_func sample_fromisoformat sample_isoformat 0 1
          (two_dicts policy_record loader_metadata)) = Inr 1 \<and>
   snd (metadata_func sample_fromisoformat sample_isoformat 0 1
          (two_dicts policy_record loader_metadata)) 1 ''name'' =
     Some (PyStr ''Work From Home Policy'')"
  by (simp add: metadata_func_fst metadata_func_lookup dict_get_def sample_fromisoformat_def
      sample_isoformat_def two_dicts_def loader_metadata_def policy_record_def)

section \<open>Assembling the context\<close>

lemma format_documents_all_rendered:
  "\<forall>d \<in> set docs. fd d p = Inr (r d) \<Longrightarrow> format_documents fd p docs = Inr (map r docs)"
  by (induction docs) simp_all

lemma str_join_Cons: "str_join sep (s # ss) = s @ concat (map (\<lambda>t. sep @ t) ss)"
  by (induction ss arbitrary: s) simp_all

text \<open>
  Claim C7. When every passage renders, \<^verbatim>\<open>_combine_documents\<close> returns the
  renderings in input order, the first as it is and each later one preceded by the
  separator. With the template \<^verbatim>\<open>"SOURCE: {name}\n{content}"\<close> and the separator
  \<^verbatim>\<open>"\n\n"\<close>, the passages A (content x) and B (content y) give
  \<^verbatim>\<open>"SOURCE: A\nx\n\nSOURCE: B\ny"\<close>.
\<close>

theorem combine_documents_joins_in_order:
  "((\<forall>d \<in> set docs. fd d p = Inr (r d)) \<longrightarrow>
      combine_documents fd docs p sep =
        Inr (case map r docs of [] \<Rightarrow> [] | s # ss \<Rightarrow> s @ concat (map (\<lambda>t. sep @ t) ss))) \<and>
   combine_documents format_document [passage_A, passage_B]
     ''SOURCE: {name}\<newline>{content}'' ''\<newline>\<newline>'' =
     Inr ''SOURCE: A\<newline>x\<newline>\<newline>SOURCE: B\<newline>y''"
proof
  show "(\<forall>d \<in> set docs. fd d p = Inr (r d)) \<longrightarrow>
      combine_documents fd docs p sep =
        Inr (case map r docs of [] \<Rightarrow> [] | s # ss \<Rightarrow> s @ concat (map (\<lambda>t. sep @ t) ss))"
  proof
    assume "\<forall>d \<in> set docs. fd d p = Inr (r d)"
    then have "format_documents fd p docs = Inr (map r docs)"
      by (rule format_documents_all_rendered)
    then show "combine_documents fd docs p sep =
        Inr (case map r docs of [] \<Rightarrow> [] | s # ss \<Rightarrow> s @ concat (map (\<lambda>t. sep @ t) ss))"
      by (cases docs) (simp_all add: combine_documents_def str_join_Cons)
  qed
next
  have A: "format_document passage_A ''SOURCE: {name}\<newline>{content}'' = Inr ''SOURCE: A\<newline>x''"
    by (simp add: format_document_def passage_field_def passage_A_def)
  have B: "format_document passage_B ''SOURCE: {name}\<newline>{content}'' = Inr ''SOURCE: B\<newline>y''"
    by (simp add: format_document_def passage_field_def passage_B_def)
  show "combine_documents format_document [passage_A, passage_B]
     ''SOURCE: {name}\<newline>{content}'' ''\<newline>\<newline>'' =
     Inr ''SOURCE: A\<newline>x\<newline>\<newline>SOURCE: B\<newline>y''"
    by (simp add: combine_documents_def A B)
qed

text \<open>
  Two passages in the order B, A with the template \<^verbatim>\<open>"{content}"\<close> and the
  separator \<^verbatim>\<open>", "\<close>.
\<close>

theorem combine_documents_joins_in_order_witness:
  "format_document passage_B ''{content}'' = Inr (doc_page_content passage_B) \<and>
   format_document passage_A ''{content}'' = Inr (doc_page_content passage_A) \<and>
   combine_documents format_document [passage_B, passage_A] ''{content}'' '', '' = Inr ''y, x''"
proof -
  have B: "format_document passage_B ''{content}'' = Inr (doc_page_content passage_B)"
    by (simp add: format_document_def passage_field_def)
  have A: "format_document passage_A ''{content}'' = Inr (doc_page_content passage_A)"
    by (simp add: format_document_def passage_field_def)
  have all: "\<forall>d \<in> set [passage_B, passage_A].
               format_document d ''{content}'' = Inr (doc_page_content d)"
    using A B by simp
  from combine_documents_joins_in_order
         [of "[passage_B, passage_A]" format_document "''{content}''" doc_page_content "'', ''"]
       all
  have "combine_documents format_document [passage_B, passage_A] ''{content}'' '', '' =
          Inr (doc_page_content passage_B @ '', '' @ doc_page_content passage_A)"
    by simp
  with A B show ?thesis
    by (simp add: passage_A_def passage_B_def)
qed

text \<open>With the notebook's own default template and separator, the same two passages.\<close>

lemma combine_documents_defaults_example:
  "combine_documents format_document [passage_A, passage_B]
     LLM_DOCUMENT_PROMPT default_document_separator =
     Inr (''\<newline>---\<newline>SOURCE: A\<newline>x\<newline>---\<newline>'' @ ''\<newline>\<newline>'' @
          ''\<newline>---\<newline>SOURCE: B\<newline>y\<newline>---\<newline>'')"
proof -
  have A: "format_document passage_A LLM_DOCUMENT_PROMPT =
             Inr ''\<newline>---\<newline>SOURCE: A\<newline>x\<newline>---\<newline>''"
    by (simp add: format_document_def passage_field_def passage_A_def LLM_DOCUMENT_PROMPT_def)
  have B: "format_document passage_B LLM_DOCUMENT_PROMPT =
             Inr ''\<newline>---\<newline>SOURCE: B\<newline>y\<newline>---\<newline>''"
    by (simp add: format_document_def passage_field_def passage_B_def LLM_DOCUMENT_PROMPT_def)
  show ?thesis
    by (simp add: combine_documents_def A B default_document_separator_def)
qed

text \<open>
  Claim C8. On an empty sequence of passages \<^verbatim>\<open>_combine_documents\<close> returns the
  empty string and raises nothing, whatever the renderer, the template and the
  separator are.
\<close>

theorem combine_documents_empty: "combine_documents fd [] p sep = Inr []"
  by (simp add: combine_documents_def)

end
